theory Spec2Isabelle
  imports Complex_Main
begin

section \<open>Strings\<close>

text \<open>
  A Go string is a sequence of bytes; it is modelled as \<open>string\<close>, a list of 8-bit
  characters. Non-ASCII literals of the source are written out as their UTF-8 bytes.

  \<open>strings.ToLower\<close> first looks at the bytes of its argument. When all of them
  are below \<open>0x80\<close> (\<open>utf8.RuneSelf\<close>), the text is ASCII and the letters \<open>A\<close> to
  \<open>Z\<close> are mapped to \<open>a\<close> to \<open>z\<close> byte by byte. Otherwise the result is
  \<open>strings.Map(unicode.ToLower, s)\<close>: the text is decoded as UTF-8, every rune is
  lowered with the case tables of Go's package \<open>unicode\<close> (so that U+0130 becomes
  \<open>i\<close> and the Kelvin sign U+212A becomes \<open>k\<close>) and a byte that is not UTF-8
  becomes U+FFFD. These tables are Go's and not part of this repository: the
  second path is the parameter \<open>mapLower\<close> of the model, and nothing is assumed
  about it.
\<close>

definition lower_byte :: "char \<Rightarrow> char" where
  "lower_byte c =
     (let n = (of_char c :: nat) in if 65 \<le> n \<and> n \<le> 90 then char_of (n + 32) else c)"

definition isASCII :: "string \<Rightarrow> bool" where
  "isASCII s = list_all (\<lambda>c. (of_char c :: nat) < 128) s"

definition ToLower :: "(string \<Rightarrow> string) \<Rightarrow> string \<Rightarrow> string" where
  "ToLower mapLower s = (if isASCII s then map lower_byte s else mapLower s)"

text \<open>\<open>strings.HasPrefix\<close> and \<open>strings.Contains\<close>: substring search.\<close>

fun HasPrefix :: "string \<Rightarrow> string \<Rightarrow> bool" where
  "HasPrefix s [] = True"
| "HasPrefix [] (p # ps) = False"
| "HasPrefix (c # cs) (p # ps) = (c = p \<and> HasPrefix cs ps)"

fun Contains :: "string \<Rightarrow> string \<Rightarrow> bool" where
  "Contains [] substr = (substr = [])"
| "Contains (c # cs) substr = (HasPrefix (c # cs) substr \<or> Contains cs substr)"

section \<open>The mood analyzer (package mood)\<close>

text \<open>
  The four audio features are \<open>float32\<close> fields that only ever hold one of the
  decimal literals written in the source; no arithmetic is done on them. They are
  modelled as the reals these literals denote. Distinct literals of the source
  are distinct \<open>float32\<close> values, so equality of features is the same in both.
\<close>

record MoodProfile =
  Mood :: string
  Energy :: real
  Danceability :: real
  Valence :: real
  Acousticness :: real
  SuggestedGenres :: "string list"
  SearchQueryTerms :: string

text \<open>\<open>containsAny\<close>: the loop returns at the first term found in the text.\<close>

fun containsAny :: "string \<Rightarrow> string list \<Rightarrow> bool" where
  "containsAny text [] = False"
| "containsAny text (term # terms) =
     (if Contains text term then True else containsAny text terms)"

text \<open>
  \<open>AnalyzeMood\<close>, given the Unicode path of \<open>strings.ToLower\<close> as \<open>mapLower\<close>:
  the profile starts as the neutral one (\<open>SearchQueryTerms\<close> is
  not set in the literal, so it is Go's zero value, the empty string) and six
  \<open>if\<close> statements follow one another, none with an \<open>else\<close>; each assigns all
  seven fields.
\<close>

definition AnalyzeMood :: "(string \<Rightarrow> string) \<Rightarrow> string \<Rightarrow> MoodProfile" where
  "AnalyzeMood mapLower moodDescription =
    (let description = ToLower mapLower moodDescription;
         profile = \<lparr>Mood = ''neutral'', Energy = 0.5, Danceability = 0.5, Valence = 0.5,
                    Acousticness = 0.5, SuggestedGenres = [], SearchQueryTerms = ''''\<rparr>;
         profile =
           (if containsAny description
                 [''happy'', ''joyful'', ''excited'', ''energetic'', ''upbeat'', ''great'',
                  ''fantastic'']
            then profile\<lparr>Mood := ''happy'', Energy := 0.8, Danceability := 0.7,
                   Valence := 0.8, Acousticness := 0.3,
                   SuggestedGenres := [''pop'', ''dance'', ''electronic'', ''funk''],
                   SearchQueryTerms := ''happy upbeat energetic''\<rparr>
            else profile);
         profile =
           (if containsAny description
                 [''sad'', ''down'', ''depressed'', ''lonely'', ''blue'', ''heartbroken'',
                  ''melancholy'']
            then profile\<lparr>Mood := ''sad'', Energy := 0.3, Danceability := 0.2,
                   Valence := 0.2, Acousticness := 0.7,
                   SuggestedGenres := [''indie'', ''folk'', ''soul'', ''acoustic''],
                   SearchQueryTerms := ''sad emotional soulful''\<rparr>
            else profile);
         profile =
           (if containsAny description
                 [''calm'', ''relaxed'', ''chill'', ''peaceful'', ''serene'', ''tranquil'',
                  ''zen'']
            then profile\<lparr>Mood := ''relaxed'', Energy := 0.2, Danceability := 0.3,
                   Valence := 0.5, Acousticness := 0.8,
                   SuggestedGenres := [''ambient'', ''lo-fi'', ''jazz'', ''acoustic''],
                   SearchQueryTerms := ''relaxing chill ambient''\<rparr>
            else profile);
         profile =
           (if containsAny description
                 [''pumped'', ''energetic'', ''motivated'', ''fired up'', ''adrenaline'']
            then profile\<lparr>Mood := ''energetic'', Energy := 0.9, Danceability := 0.8,
                   Valence := 0.7, Acousticness := 0.1,
                   SuggestedGenres := [''hip-hop'', ''electronic'', ''rock'', ''metal''],
                   SearchQueryTerms := ''energetic powerful intense''\<rparr>
            else profile);
         profile =
           (if containsAny description
                 [''romantic'', ''in love'', ''loved'', ''affectionate'', ''passionate'']
            then profile\<lparr>Mood := ''romantic'', Energy := 0.4, Danceability := 0.5,
                   Valence := 0.7, Acousticness := 0.6,
                   SuggestedGenres := [''soul'', ''r&b'', ''indie'', ''acoustic pop''],
                   SearchQueryTerms := ''romantic love passionate''\<rparr>
            else profile);
         profile =
           (if containsAny description
                 [''focused'', ''studying'', ''concentrating'', ''working'', ''productive'']
            then profile\<lparr>Mood := ''focused'', Energy := 0.5, Danceability := 0.3,
                   Valence := 0.5, Acousticness := 0.5,
                   SuggestedGenres := [''lo-fi'', ''classical'', ''ambient'', ''instrumental''],
                   SearchQueryTerms := ''focus study concentration''\<rparr>
            else profile)
     in profile)"

text \<open>
  \<open>fmt.Sprintf("%d", n)\<close>: the decimal digits of an integer, with a minus sign
  when it is negative.
\<close>

fun digits :: "nat \<Rightarrow> string" where
  "digits n = (if n < 10 then [char_of (48 + n)]
               else digits (n div 10) @ [char_of (48 + n mod 10)])"

declare digits.simps [simp del]

definition Sprint_d :: "int \<Rightarrow> string" where
  "Sprint_d n = (if n < 0 then CHR ''-'' # digits (nat (- n)) else digits (nat n))"

text \<open>
  \<open>FormatTrackRecommendation\<close>: the format string is
  \<open>"<U+1F3B5> %s by %s\n   <U+1F517> %s"\<close>; the two symbols are four UTF-8 bytes each.
\<close>

definition FormatTrackRecommendation :: "string \<Rightarrow> string \<Rightarrow> string \<Rightarrow> string" where
  "FormatTrackRecommendation trackName artistName spotifyURL =
     [CHR 0xF0, CHR 0x9F, CHR 0x8E, CHR 0xB5] @ '' '' @ trackName @ '' by '' @ artistName
       @ [CHR 0x0A] @ ''   '' @ [CHR 0xF0, CHR 0x9F, CHR 0x94, CHR 0x97] @ '' '' @ spotifyURL"

section \<open>The Spotify client (package spotify)\<close>

record Artist =
  Artist_Name :: string

record Track =
  Track_ID :: string
  Track_Name :: string
  Track_Artists :: "Artist list"
  Track_ExternalURLs_Spotify :: string
  Track_PreviewURL :: string
  Track_URI :: string

record User =
  User_ID :: string
  User_DisplayName :: string

record Playlist =
  Playlist_ID :: string
  Playlist_Name :: string
  Playlist_ExternalURLs_Spotify :: string

record Client =
  clientID :: string
  clientSecret :: string
  accessToken :: string

definition NewClient :: "string \<Rightarrow> string \<Rightarrow> Client" where
  "NewClient cid csecret = \<lparr>clientID = cid, clientSecret = csecret, accessToken = ''''\<rparr>"

definition spotifySearchURL :: string where
  "spotifySearchURL = ''https://api.spotify.com/v1/search''"

definition spotifyAPIURL :: string where
  "spotifyAPIURL = ''https://api.spotify.com/v1''"

text \<open>
  Every error of the client is built with \<open>fmt.Errorf\<close>; the messages differ from
  one operation to the other but fall into these kinds. \<open>StatusError\<close> carries the
  status code and the text that follows it in the message.
\<close>

datatype error =
    NotAuthenticated
  | MarshalError
  | RequestError
  | TransportError
  | StatusError int string
  | DecodeError

text \<open>An HTTP request as the client builds it, and the response it reads.\<close>

record Request =
  Method :: string
  URL :: string
  Header :: "(string \<times> string) list"
  Body :: "string option"

datatype Response = Response (StatusCode: int) (ResponseBody: string)

text \<open>
  What the program takes from Go's libraries and from the network is a parameter
  of the model:
  \<^item> \<open>Map_ToLower\<close>: \<open>strings.Map(unicode.ToLower, s)\<close>, the Unicode path of
    \<open>strings.ToLower\<close> above;
  \<^item> \<open>NewRequest_ok method url\<close>: whether \<open>http.NewRequest\<close> accepts the URL;
  \<^item> \<open>Do history request\<close>: the answer of the network to a request, given the
    requests sent before it; \<open>None\<close> is a transport error;
  \<^item> \<open>Encode\<close>: \<open>url.Values.Encode\<close>; only \<open>Set\<close> is ever used on the values,
    so they are a map from keys to one string each;
  \<^item> \<open>Sprint_v\<close>: \<open>fmt.Sprintf("%v", x)\<close> on a \<open>float32\<close>;
  \<^item> \<open>Marshal_strings\<close>, \<open>Marshal_uris\<close>: \<open>json.Marshal\<close> on the two request
    bodies, \<open>None\<close> when it returns an error;
  \<^item> \<open>Decode_...\<close>: \<open>json.NewDecoder(resp.Body).Decode\<close> into each of the four
    result types, \<open>None\<close> when it returns an error.
\<close>

record Env =
  Map_ToLower :: "string \<Rightarrow> string"
  NewRequest_ok :: "string \<Rightarrow> string \<Rightarrow> bool"
  Do :: "Request list \<Rightarrow> Request \<Rightarrow> Response option"
  Encode :: "(string \<rightharpoonup> string) \<Rightarrow> string"
  Sprint_v :: "real \<Rightarrow> string"
  Marshal_strings :: "(string \<rightharpoonup> string) \<Rightarrow> string option"
  Marshal_uris :: "string list \<Rightarrow> string option"
  Decode_SearchResult :: "string \<Rightarrow> Track list option"
  Decode_Recommendations :: "string \<Rightarrow> Track list option"
  Decode_User :: "string \<Rightarrow> User option"
  Decode_Playlist :: "string \<Rightarrow> Playlist option"

text \<open>
  The state threaded through the client: \<open>sent\<close> is the list of HTTP requests
  handed to \<open>client.Do\<close> so far, and \<open>calls\<close> records every call of a client
  operation with its arguments (a history variable: each operation appends its
  own call on entry).
\<close>

datatype Call =
    CallSearchTracks string int
  | CallGetRecommendations "string list" "string list" "string \<rightharpoonup> real" int
  | CallGetCurrentUser
  | CallCreatePlaylist string string string
  | CallAddTracksToPlaylist string "string list"

record World =
  calls :: "Call list"
  sent :: "Request list"

definition enter :: "Call \<Rightarrow> World \<Rightarrow> World" where
  "enter call w = w\<lparr>calls := calls w @ [call]\<rparr>"

definition client_Do :: "Env \<Rightarrow> Request \<Rightarrow> World \<Rightarrow> Response option \<times> World" where
  "client_Do env req w = (Do env (sent w) req, w\<lparr>sent := sent w @ [req]\<rparr>)"

text \<open>\<open>strings.Join\<close>.\<close>

fun Join :: "string list \<Rightarrow> string \<Rightarrow> string" where
  "Join [] sep = ''''"
| "Join [x] sep = x"
| "Join (x # y # ys) sep = x @ sep @ Join (y # ys) sep"

text \<open>The URL of a search: the three parameters, encoded after the endpoint.\<close>

definition SearchTracks_url :: "Env \<Rightarrow> string \<Rightarrow> int \<Rightarrow> string" where
  "SearchTracks_url env query limit =
     (let params = [''q'' \<mapsto> query, ''type'' \<mapsto> ''track'', ''limit'' \<mapsto> Sprint_d limit]
      in spotifySearchURL @ ''?'' @ Encode env params)"

definition SearchTracks ::
  "Env \<Rightarrow> Client \<Rightarrow> string \<Rightarrow> int \<Rightarrow> World \<Rightarrow> (error + Track list) \<times> World" where
  "SearchTracks env c query limit w0 =
    (let w = enter (CallSearchTracks query limit) w0 in
     if accessToken c = '''' then (Inl NotAuthenticated, w)
     else
       let searchURL = SearchTracks_url env query limit
       in if \<not> NewRequest_ok env ''GET'' searchURL then (Inl RequestError, w)
          else
            let req = \<lparr>Method = ''GET'', URL = searchURL,
                       Header = [(''Authorization'', ''Bearer '' @ accessToken c)],
                       Body = None\<rparr>
            in case client_Do env req w of
                 (None, w1) \<Rightarrow> (Inl TransportError, w1)
               | (Some resp, w1) \<Rightarrow>
                   if StatusCode resp \<noteq> 200
                   then (Inl (StatusError (StatusCode resp) (ResponseBody resp)), w1)
                   else (case Decode_SearchResult env (ResponseBody resp) of
                           None \<Rightarrow> (Inl DecodeError, w1)
                         | Some items \<Rightarrow> (Inr items, w1)))"

text \<open>
  The URL of \<open>GetRecommendations\<close>. The loop over \<open>moodParams\<close> sets one value
  per key of the map; the keys being distinct, the order in which Go visits them
  does not matter and the loop is the override of \<open>params\<close> by the formatted map.
\<close>

definition GetRecommendations_url ::
  "Env \<Rightarrow> string list \<Rightarrow> string list \<Rightarrow> (string \<rightharpoonup> real) \<Rightarrow> int \<Rightarrow> string" where
  "GetRecommendations_url env seedTracks seedGenres moodParams limit =
     (let params = Map.empty;
          params = (if length seedTracks > 0
                    then params(''seed_tracks'' \<mapsto> Join seedTracks '','') else params);
          params = (if length seedGenres > 0
                    then params(''seed_genres'' \<mapsto> Join seedGenres '','') else params);
          params = params ++ (\<lambda>key. map_option (Sprint_v env) (moodParams key));
          params = params(''limit'' \<mapsto> Sprint_d limit)
      in spotifyAPIURL @ ''/recommendations?'' @ Encode env params)"

definition GetRecommendations ::
  "Env \<Rightarrow> Client \<Rightarrow> string list \<Rightarrow> string list \<Rightarrow> (string \<rightharpoonup> real) \<Rightarrow> int \<Rightarrow> World
     \<Rightarrow> (error + Track list) \<times> World" where
  "GetRecommendations env c seedTracks seedGenres moodParams limit w0 =
    (let w = enter (CallGetRecommendations seedTracks seedGenres moodParams limit) w0 in
     if accessToken c = '''' then (Inl NotAuthenticated, w)
     else
       let recURL = GetRecommendations_url env seedTracks seedGenres moodParams limit
       in if \<not> NewRequest_ok env ''GET'' recURL then (Inl RequestError, w)
          else
            let req = \<lparr>Method = ''GET'', URL = recURL,
                       Header = [(''Authorization'', ''Bearer '' @ accessToken c)],
                       Body = None\<rparr>
            in case client_Do env req w of
                 (None, w1) \<Rightarrow> (Inl TransportError, w1)
               | (Some resp, w1) \<Rightarrow>
                   if StatusCode resp \<noteq> 200
                   then
                     (let bodyStr = (if ResponseBody resp = '''' then ''(empty response)''
                                     else ResponseBody resp)
                      in (Inl (StatusError (StatusCode resp)
                                 (bodyStr @ '' (URL: '' @ recURL @ '')'')), w1))
                   else (case Decode_Recommendations env (ResponseBody resp) of
                           None \<Rightarrow> (Inl DecodeError, w1)
                         | Some tracks \<Rightarrow> (Inr tracks, w1)))"

text \<open>\<open>GetCurrentUser\<close>; on success the pointer it returns is never nil.\<close>

definition GetCurrentUser :: "Env \<Rightarrow> Client \<Rightarrow> World \<Rightarrow> (error + User) \<times> World" where
  "GetCurrentUser env c w0 =
    (let w = enter CallGetCurrentUser w0 in
     if accessToken c = '''' then (Inl NotAuthenticated, w)
     else if \<not> NewRequest_ok env ''GET'' (spotifyAPIURL @ ''/me'') then (Inl RequestError, w)
     else
       let req = \<lparr>Method = ''GET'', URL = spotifyAPIURL @ ''/me'',
                  Header = [(''Authorization'', ''Bearer '' @ accessToken c)],
                  Body = None\<rparr>
       in case client_Do env req w of
            (None, w1) \<Rightarrow> (Inl TransportError, w1)
          | (Some resp, w1) \<Rightarrow>
              if StatusCode resp \<noteq> 200
              then (Inl (StatusError (StatusCode resp) (ResponseBody resp)), w1)
              else (case Decode_User env (ResponseBody resp) of
                      None \<Rightarrow> (Inl DecodeError, w1)
                    | Some user \<Rightarrow> (Inr user, w1)))"

text \<open>
  \<open>CreatePlaylist\<close>: the status must be 201 (\<open>http.StatusCreated\<close>) or 200.
  The URL and the request it posts are named, to be referred to below.
\<close>

definition CreatePlaylist_url :: "string \<Rightarrow> string" where
  "CreatePlaylist_url userID = spotifyAPIURL @ ''/users/'' @ userID @ ''/playlists''"

definition CreatePlaylist_request :: "Client \<Rightarrow> string \<Rightarrow> string \<Rightarrow> Request" where
  "CreatePlaylist_request c userID jsonData =
     \<lparr>Method = ''POST'', URL = CreatePlaylist_url userID,
      Header = [(''Authorization'', ''Bearer '' @ accessToken c),
                (''Content-Type'', ''application/json'')],
      Body = Some jsonData\<rparr>"

definition CreatePlaylist_data :: "string \<Rightarrow> string \<Rightarrow> (string \<rightharpoonup> string)" where
  "CreatePlaylist_data name description =
     [''name'' \<mapsto> name, ''description'' \<mapsto> description, ''public'' \<mapsto> ''false'']"

definition CreatePlaylist ::
  "Env \<Rightarrow> Client \<Rightarrow> string \<Rightarrow> string \<Rightarrow> string \<Rightarrow> World \<Rightarrow> (error + Playlist) \<times> World" where
  "CreatePlaylist env c userID name description w0 =
    (let w = enter (CallCreatePlaylist userID name description) w0 in
     if accessToken c = '''' then (Inl NotAuthenticated, w)
     else
       let data = CreatePlaylist_data name description
       in case Marshal_strings env data of
            None \<Rightarrow> (Inl MarshalError, w)
          | Some jsonData \<Rightarrow>
              let url = CreatePlaylist_url userID
              in if \<not> NewRequest_ok env ''POST'' url then (Inl RequestError, w)
                 else
                   let req = CreatePlaylist_request c userID jsonData
                   in case client_Do env req w of
                        (None, w1) \<Rightarrow> (Inl TransportError, w1)
                      | (Some resp, w1) \<Rightarrow>
                          if StatusCode resp \<noteq> 201 \<and> StatusCode resp \<noteq> 200
                          then (Inl (StatusError (StatusCode resp) (ResponseBody resp)), w1)
                          else (case Decode_Playlist env (ResponseBody resp) of
                                  None \<Rightarrow> (Inl DecodeError, w1)
                                | Some playlist \<Rightarrow> (Inr playlist, w1)))"

text \<open>\<open>AddTracksToPlaylist\<close> returns only an error; \<open>None\<close> is Go's \<open>nil\<close>.\<close>

definition AddTracksToPlaylist ::
  "Env \<Rightarrow> Client \<Rightarrow> string \<Rightarrow> string list \<Rightarrow> World \<Rightarrow> error option \<times> World" where
  "AddTracksToPlaylist env c playlistID trackURIs w0 =
    (let w = enter (CallAddTracksToPlaylist playlistID trackURIs) w0 in
     if accessToken c = '''' then (Some NotAuthenticated, w)
     else
       case Marshal_uris env trackURIs of
         None \<Rightarrow> (Some MarshalError, w)
       | Some jsonData \<Rightarrow>
           let url = spotifyAPIURL @ ''/playlists/'' @ playlistID @ ''/tracks''
           in if \<not> NewRequest_ok env ''POST'' url then (Some RequestError, w)
              else
                let req = \<lparr>Method = ''POST'', URL = url,
                           Header = [(''Authorization'', ''Bearer '' @ accessToken c),
                                     (''Content-Type'', ''application/json'')],
                           Body = Some jsonData\<rparr>
                in case client_Do env req w of
                     (None, w1) \<Rightarrow> (Some TransportError, w1)
                   | (Some resp, w1) \<Rightarrow>
                       if StatusCode resp \<noteq> 201 \<and> StatusCode resp \<noteq> 200
                       then (Some (StatusError (StatusCode resp) (ResponseBody resp)), w1)
                       else (None, w1))"

section \<open>The agent (package main)\<close>

text \<open>
  \<open>strings.Title\<close>, as Go computes it on ASCII text: a letter \<open>a\<close> to \<open>z\<close> that
  follows a separator (or starts the string) becomes its capital. ASCII letters,
  digits and the underscore are not separators, every other ASCII byte is one.
  The program applies it to the mood label, one of seven lowercase ASCII words;
  a byte outside ASCII, which does not occur there, is kept and taken as part of
  a word.
\<close>

definition upper_byte :: "char \<Rightarrow> char" where
  "upper_byte c =
     (let n = (of_char c :: nat) in if 97 \<le> n \<and> n \<le> 122 then char_of (n - 32) else c)"

definition isSeparator :: "char \<Rightarrow> bool" where
  "isSeparator c =
     (let n = (of_char c :: nat)
      in if n \<le> 127
         then \<not> ((48 \<le> n \<and> n \<le> 57) \<or> (97 \<le> n \<and> n \<le> 122) \<or> (65 \<le> n \<and> n \<le> 90) \<or> n = 95)
         else False)"

fun Title_after :: "char \<Rightarrow> string \<Rightarrow> string" where
  "Title_after prev [] = []"
| "Title_after prev (r # rs) =
     (if isSeparator prev then upper_byte r else r) # Title_after r rs"

definition Title :: "string \<Rightarrow> string" where
  "Title s = Title_after CHR '' '' s"

text \<open>
  \<open>recommendMusic\<close>, in the order of the source (\<open>main.go\<close>, lines 55 to 167).
  Calls of \<open>log.Printf\<close> are left out. The loop that collects the seeds, lines
  77 to 83 (\<open>seedTrackIDs\<close> starts as nil):
\<close>

fun collect_seedTrackIDs :: "Track list \<Rightarrow> string list \<Rightarrow> string list" where
  "collect_seedTrackIDs [] seedTrackIDs = seedTrackIDs"
| "collect_seedTrackIDs (t # ts) seedTrackIDs =
     collect_seedTrackIDs ts
       (if Track_ID t \<noteq> '''' then seedTrackIDs @ [Track_ID t] else seedTrackIDs)"

text \<open>
  The genres that fill up the seeds, lines 87 to 97 (\<open>seedGenres\<close> starts as
  nil, the empty slice).
\<close>

definition fill_seedGenres :: "MoodProfile \<Rightarrow> string list \<Rightarrow> string list" where
  "fill_seedGenres moodProfile seedTrackIDs =
     (if int (length seedTrackIDs) < 5
      then
        (let remaining = 5 - int (length seedTrackIDs)
         in if length (SuggestedGenres moodProfile) > 0
            then (if int (length (SuggestedGenres moodProfile)) > remaining
                  then take (nat remaining) (SuggestedGenres moodProfile)
                  else SuggestedGenres moodProfile)
            else [])
      else [])"

text \<open>The map \<open>moodParams\<close> of the four targets, lines 99 to 104.\<close>

definition moodParams_of :: "MoodProfile \<Rightarrow> (string \<rightharpoonup> real)" where
  "moodParams_of moodProfile =
     [''target_energy'' \<mapsto> Energy moodProfile,
      ''target_danceability'' \<mapsto> Danceability moodProfile,
      ''target_valence'' \<mapsto> Valence moodProfile,
      ''target_acousticness'' \<mapsto> Acousticness moodProfile]"

text \<open>
  Lines 107 to 124: the recommendations, or the second search when they fail.
  The result is the extended list of tracks.
\<close>

definition more_tracks ::
  "Env \<Rightarrow> Client \<Rightarrow> MoodProfile \<Rightarrow> string \<Rightarrow> Track list \<Rightarrow> World \<Rightarrow> Track list \<times> World" where
  "more_tracks env c moodProfile query tracks w =
    (let seedTrackIDs = collect_seedTrackIDs tracks [];
         seedGenres = fill_seedGenres moodProfile seedTrackIDs;
         moodParams = moodParams_of moodProfile
     in case GetRecommendations env c seedTrackIDs seedGenres moodParams 15 w of
          (Inr recs, w1) \<Rightarrow> (tracks @ recs, w1)
        | (Inl err, w1) \<Rightarrow>
            (let fallbackQuery = query @ '' '' @ Mood moodProfile
             in case SearchTracks env c fallbackQuery 15 w1 of
                  (Inr moreTracks, w2) \<Rightarrow>
                    if length moreTracks > 0 then (tracks @ moreTracks, w2) else (tracks, w2)
                | (Inl searchErr, w2) \<Rightarrow> (tracks, w2)))"

text \<open>
  The loop that builds the response, lines 131 to 141: \<open>i\<close> is the index of the
  track, \<open>response\<close> and \<open>trackURIs\<close> are the two variables it appends to. The
  header of line 127 is the initial response.
\<close>

fun list_tracks :: "nat \<Rightarrow> Track list \<Rightarrow> string \<Rightarrow> string list \<Rightarrow> string \<times> string list" where
  "list_tracks i [] response trackURIs = (response, trackURIs)"
| "list_tracks i (track # rest) response trackURIs =
    (let artistName = ''Unknown'';
         artistName = (case Track_Artists track of
                         [] \<Rightarrow> artistName
                       | first # others \<Rightarrow> Artist_Name first);
         recommendation = FormatTrackRecommendation (Track_Name track) artistName
                            (Track_ExternalURLs_Spotify track);
         response = response @ Sprint_d (int i + 1) @ ''. '' @ recommendation @ [CHR 0x0A];
         trackURIs = (if Track_URI track \<noteq> '''' then trackURIs @ [Track_URI track]
                      else trackURIs)
     in list_tracks (i + 1) rest response trackURIs)"

definition response_header :: "MoodProfile \<Rightarrow> string" where
  "response_header moodProfile =
     ''Based on your mood ('' @ Mood moodProfile
       @ ''), here are some song recommendations:'' @ [CHR 0x0A, CHR 0x0A]"

definition build_response :: "MoodProfile \<Rightarrow> Track list \<Rightarrow> string \<times> string list" where
  "build_response moodProfile tracks =
     list_tracks 0 tracks (response_header moodProfile) []"

text \<open>
  The note appended when the playlist has been filled. In the source its first
  character after the line feed is stored as the six bytes written here.
\<close>

definition playlist_note :: "Playlist \<Rightarrow> string" where
  "playlist_note playlist =
     [CHR 0x0A, CHR 0xC3, CHR 0xA2, CHR 0xC5, CHR 0x93, CHR 0xC2, CHR 0xA8]
       @ '' I've also created a playlist for you: ''
       @ Playlist_ExternalURLs_Spotify playlist @ [CHR 0x0A]"

text \<open>
  The playlist part, lines 143 to 166, with the name and the description it gives
  to the playlist. The function returns the text and Go's error value, which is
  \<open>nil\<close> (\<open>None\<close>) at every \<open>return\<close> of \<open>recommendMusic\<close>. The pointer that
  \<open>GetCurrentUser\<close> returns with a nil error is never nil, so the test
  \<open>err == nil && user != nil\<close> is the test of the error alone.
\<close>

definition playlistName :: "MoodProfile \<Rightarrow> string" where
  "playlistName moodProfile = ''Mood Analyst: '' @ Title (Mood moodProfile) @ '' Vibes''"

definition playlistDescription :: "MoodProfile \<Rightarrow> string" where
  "playlistDescription moodProfile =
     ''A playlist curated for your '' @ Mood moodProfile @ '' mood.''"

definition try_playlist ::
  "Env \<Rightarrow> Client \<Rightarrow> MoodProfile \<Rightarrow> string \<Rightarrow> string list \<Rightarrow> World
     \<Rightarrow> (string \<times> error option) \<times> World" where
  "try_playlist env c moodProfile response trackURIs w =
    (case GetCurrentUser env c w of
       (Inr user, w1) \<Rightarrow>
         (case CreatePlaylist env c (User_ID user) (playlistName moodProfile)
                 (playlistDescription moodProfile) w1 of
            (Inr playlist, w2) \<Rightarrow>
              (case AddTracksToPlaylist env c (Playlist_ID playlist) trackURIs w2 of
                 (None, w3) \<Rightarrow> ((response @ playlist_note playlist, None), w3)
               | (Some err, w3) \<Rightarrow> ((response, None), w3))
          | (Inl err, w2) \<Rightarrow> ((response, None), w2))
     | (Inl err, w1) \<Rightarrow> ((response, None), w1))"

text \<open>
  The query of the first search, lines 61 to 64: the terms of the profile, or the
  description itself when they are empty.
\<close>

definition search_query :: "Env \<Rightarrow> string \<Rightarrow> string" where
  "search_query env moodDescription =
     (let query = SearchQueryTerms (AnalyzeMood (Map_ToLower env) moodDescription)
      in if query = '''' then moodDescription else query)"

definition recommendMusic ::
  "Env \<Rightarrow> Client \<Rightarrow> string \<Rightarrow> World \<Rightarrow> (string \<times> error option) \<times> World" where
  "recommendMusic env c moodDescription w =
    (let moodProfile = AnalyzeMood (Map_ToLower env) moodDescription;
         query = search_query env moodDescription
     in case SearchTracks env c query 5 w of
          (Inl err, w1) \<Rightarrow>
            ((''I detected your mood as '' @ [CHR 0x27] @ Mood moodProfile @ [CHR 0x27]
                @ '', but I couldn't fetch recommendations right now. Try again later!'',
              None), w1)
        | (Inr tracks, w1) \<Rightarrow>
            if length tracks = 0
            then ((''I understand you're feeling '' @ Mood moodProfile
                     @ '', but I couldn't find any matching songs right now.'', None), w1)
            else
              (case more_tracks env c moodProfile query tracks w1 of
                 (tracks, w2) \<Rightarrow>
                   (case build_response moodProfile tracks of
                      (response, trackURIs) \<Rightarrow>
                        try_playlist env c moodProfile response trackURIs w2)))"

section \<open>The specification's reading of the classifier\<close>

text \<open>
  The table of the six rules as the specification gives it, in its order, each a
  pair of a keyword list and the profile of the category.
\<close>

definition spec_neutral :: MoodProfile where
  "spec_neutral =
     \<lparr>Mood = ''neutral'', Energy = 0.5, Danceability = 0.5, Valence = 0.5,
      Acousticness = 0.5, SuggestedGenres = [], SearchQueryTerms = ''''\<rparr>"

definition spec_happy :: MoodProfile where
  "spec_happy =
     \<lparr>Mood = ''happy'', Energy = 0.8, Danceability = 0.7, Valence = 0.8,
      Acousticness = 0.3, SuggestedGenres = [''pop'', ''dance'', ''electronic'', ''funk''],
      SearchQueryTerms = ''happy upbeat energetic''\<rparr>"

definition spec_sad :: MoodProfile where
  "spec_sad =
     \<lparr>Mood = ''sad'', Energy = 0.3, Danceability = 0.2, Valence = 0.2,
      Acousticness = 0.7, SuggestedGenres = [''indie'', ''folk'', ''soul'', ''acoustic''],
      SearchQueryTerms = ''sad emotional soulful''\<rparr>"

definition spec_relaxed :: MoodProfile where
  "spec_relaxed =
     \<lparr>Mood = ''relaxed'', Energy = 0.2, Danceability = 0.3, Valence = 0.5,
      Acousticness = 0.8, SuggestedGenres = [''ambient'', ''lo-fi'', ''jazz'', ''acoustic''],
      SearchQueryTerms = ''relaxing chill ambient''\<rparr>"

definition spec_energetic :: MoodProfile where
  "spec_energetic =
     \<lparr>Mood = ''energetic'', Energy = 0.9, Danceability = 0.8, Valence = 0.7,
      Acousticness = 0.1, SuggestedGenres = [''hip-hop'', ''electronic'', ''rock'', ''metal''],
      SearchQueryTerms = ''energetic powerful intense''\<rparr>"

definition spec_romantic :: MoodProfile where
  "spec_romantic =
     \<lparr>Mood = ''romantic'', Energy = 0.4, Danceability = 0.5, Valence = 0.7,
      Acousticness = 0.6, SuggestedGenres = [''soul'', ''r&b'', ''indie'', ''acoustic pop''],
      SearchQueryTerms = ''romantic love passionate''\<rparr>"

definition spec_focused :: MoodProfile where
  "spec_focused =
     \<lparr>Mood = ''focused'', Energy = 0.5, Danceability = 0.3, Valence = 0.5,
      Acousticness = 0.5,
      SuggestedGenres = [''lo-fi'', ''classical'', ''ambient'', ''instrumental''],
      SearchQueryTerms = ''focus study concentration''\<rparr>"

definition spec_happy_keywords :: "string list" where
  "spec_happy_keywords =
     [''happy'', ''joyful'', ''excited'', ''energetic'', ''upbeat'', ''great'', ''fantastic'']"

definition spec_focused_keywords :: "string list" where
  "spec_focused_keywords =
     [''focused'', ''studying'', ''concentrating'', ''working'', ''productive'']"

definition spec_rule_table :: "(string list \<times> MoodProfile) list" where
  "spec_rule_table =
     [(spec_happy_keywords, spec_happy),
      ([''sad'', ''down'', ''depressed'', ''lonely'', ''blue'', ''heartbroken'', ''melancholy''],
       spec_sad),
      ([''calm'', ''relaxed'', ''chill'', ''peaceful'', ''serene'', ''tranquil'', ''zen''],
       spec_relaxed),
      ([''pumped'', ''energetic'', ''motivated'', ''fired up'', ''adrenaline''],
       spec_energetic),
      ([''romantic'', ''in love'', ''loved'', ''affectionate'', ''passionate''],
       spec_romantic),
      (spec_focused_keywords, spec_focused)]"

text \<open>A rule matches a text when one of its keywords is a substring of the text.\<close>

definition spec_matches :: "string \<Rightarrow> string list \<times> MoodProfile \<Rightarrow> bool" where
  "spec_matches text rule = list_ex (Contains text) (fst rule)"

text \<open>
  Applying the rules in table order, each matching rule replacing the whole
  profile, and the same said as "the last matching rule wins".
\<close>

definition spec_apply_rules :: "string \<Rightarrow> MoodProfile" where
  "spec_apply_rules text =
     foldl (\<lambda>profile rule. if spec_matches text rule then snd rule else profile)
       spec_neutral spec_rule_table"

definition spec_last_match :: "string \<Rightarrow> MoodProfile" where
  "spec_last_match text =
     (case rev (filter (spec_matches text) spec_rule_table) of
        [] \<Rightarrow> spec_neutral
      | rule # earlier \<Rightarrow> snd rule)"




text \<open>
  A line of the response as it should read, byte by byte: the number, a full stop
  and a space; the note symbol U+1F3B5 and a space; the title, \<open>by\<close> between two
  spaces and the name of the first artist, or \<open>Unknown\<close> when the track has no
  artist; a line feed and three spaces; the link symbol U+1F517, a space and the
  link; a line feed.
\<close>

definition shown_artist :: "Track \<Rightarrow> string" where
  "shown_artist track =
     (if Track_Artists track = [] then ''Unknown''
      else Artist_Name (hd (Track_Artists track)))"

definition track_line :: "nat \<Rightarrow> Track \<Rightarrow> string" where
  "track_line n track =
     Sprint_d (int n) @ ''. ''
       @ [CHR 0xF0, CHR 0x9F, CHR 0x8E, CHR 0xB5] @ '' ''
       @ Track_Name track @ '' by '' @ shown_artist track
       @ [CHR 0x0A] @ ''   ''
       @ [CHR 0xF0, CHR 0x9F, CHR 0x94, CHR 0x97] @ '' ''
       @ Track_ExternalURLs_Spotify track
       @ [CHR 0x0A]"

section \<open>A scripted environment, for running the model\<close>

text \<open>
  An instance of the Unicode path of \<open>strings.ToLower\<close>: it lowers the letters
  \<open>A\<close> to \<open>Z\<close> and keeps every other byte. Go computes the same on a well-formed
  text whose letters outside ASCII are lowercase already.
\<close>

definition stub_lower :: "string \<Rightarrow> string" where
  "stub_lower s = map lower_byte s"

text \<open>
  A network that answers every request with status 200, except the request
  number \<open>k\<close> (counted from 0), which it answers with the status \<open>st\<close>; and an
  environment over it in which every request can be built and every body decodes
  to fixed data, the search finding the tracks \<open>found\<close>.
\<close>

definition stub_net :: "nat \<Rightarrow> int \<Rightarrow> Request list \<Rightarrow> Request \<Rightarrow> Response option" where
  "stub_net k st history req =
     (if length history = k then Some (Response st ''answer'') else Some (Response 200 ''ok''))"

definition stub_track :: "string \<Rightarrow> Artist list \<Rightarrow> Track" where
  "stub_track ident artists =
     \<lparr>Track_ID = ident, Track_Name = ''Song'', Track_Artists = artists,
      Track_ExternalURLs_Spotify = ''https://open.spotify.com/track/'' @ ident,
      Track_PreviewURL = '''', Track_URI = ''spotify:track:'' @ ident\<rparr>"

definition stub_user :: User where
  "stub_user = \<lparr>User_ID = ''u1'', User_DisplayName = ''Listener''\<rparr>"

definition stub_playlist :: Playlist where
  "stub_playlist =
     \<lparr>Playlist_ID = ''p1'', Playlist_Name = ''Mood Analyst: Happy Vibes'',
      Playlist_ExternalURLs_Spotify = ''https://open.spotify.com/playlist/p1''\<rparr>"

definition stub_env :: "nat \<Rightarrow> int \<Rightarrow> Track list \<Rightarrow> Env" where
  "stub_env k st found =
     \<lparr>Map_ToLower = stub_lower,
      NewRequest_ok = (\<lambda>method url. True),
      Do = stub_net k st,
      Encode = (\<lambda>params. ''params''),
      Sprint_v = (\<lambda>x. ''0.5''),
      Marshal_strings = (\<lambda>data. Some ''{}''),
      Marshal_uris = (\<lambda>uris. Some ''{}''),
      Decode_SearchResult = (\<lambda>body. Some found),
      Decode_Recommendations = (\<lambda>body. Some [stub_track ''r1'' []]),
      Decode_User = (\<lambda>body. Some stub_user),
      Decode_Playlist = (\<lambda>body. Some stub_playlist)\<rparr>"

definition stub_client :: Client where
  "stub_client = \<lparr>clientID = ''id'', clientSecret = ''secret'', accessToken = ''token''\<rparr>"

definition start :: World where
  "start = \<lparr>calls = [], sent = []\<rparr>"

text \<open>Four tracks found by a search, one of them without an identifier.\<close>

definition stub_found :: "Track list" where
  "stub_found =
     [stub_track ''a'' [],
      stub_track '''' [\<lparr>Artist_Name = ''Ann''\<rparr>],
      stub_track ''b'' [],
      stub_track ''c'' [\<lparr>Artist_Name = ''Ann''\<rparr>, \<lparr>Artist_Name = ''Bob''\<rparr>]]"

section \<open>Facts about the classifier\<close>

lemma containsAny_list_ex: "containsAny text terms = list_ex (Contains text) terms"
  by (induction terms) simp_all

lemma overwrite_all:
  "p\<lparr>Mood := m, Energy := e, Danceability := d, Valence := v, Acousticness := a,
      SuggestedGenres := g, SearchQueryTerms := q\<rparr> =
   \<lparr>Mood = m, Energy = e, Danceability = d, Valence = v, Acousticness = a,
      SuggestedGenres = g, SearchQueryTerms = q\<rparr>"
  by (cases p) simp

lemma AnalyzeMood_apply_rules:
  "AnalyzeMood mapLower s = spec_apply_rules (ToLower mapLower s)"
  unfolding AnalyzeMood_def spec_apply_rules_def spec_rule_table_def spec_matches_def
    containsAny_list_ex spec_neutral_def spec_happy_def spec_sad_def spec_relaxed_def
    spec_energetic_def spec_romantic_def spec_focused_def spec_happy_keywords_def
    spec_focused_keywords_def
  by (simp only: Let_def overwrite_all foldl_Cons foldl_Nil fst_conv snd_conv)

lemma foldl_no_match:
  "\<forall>r \<in> set rs. \<not> P r \<Longrightarrow> foldl (\<lambda>p r. if P r then snd r else p) d rs = d"
  by (induction rs arbitrary: d) simp_all

lemma foldl_last_match:
  "foldl (\<lambda>p r. if P r then snd r else p) d rs =
     (case rev (filter P rs) of [] \<Rightarrow> d | r # earlier \<Rightarrow> snd r)"
  by (induction rs rule: rev_induct) simp_all

lemma spec_apply_rules_last_match: "spec_apply_rules text = spec_last_match text"
  unfolding spec_apply_rules_def spec_last_match_def by (rule foldl_last_match)

lemma apply_rules_focused:
  "spec_matches text (spec_focused_keywords, spec_focused) \<Longrightarrow>
     spec_apply_rules text = spec_focused"
  by (simp add: spec_apply_rules_def spec_rule_table_def)

text \<open>On an ASCII text the lowering is that of the bytes, whatever the Unicode path.\<close>

lemma ToLower_ascii: "isASCII s \<Longrightarrow> ToLower mapLower s = map lower_byte s"
  by (simp add: ToLower_def)











text \<open>Two ASCII descriptions, lowered on any Unicode path.\<close>

lemma ToLower_happy: "ToLower mapLower ''I feel Happy'' = ''i feel happy''"
proof -
  have a: "isASCII ''I feel Happy''" by code_simp
  have l: "map lower_byte ''I feel Happy'' = ''i feel happy''" by code_simp
  show ?thesis unfolding ToLower_ascii [OF a] by (rule l)
qed

lemma ToLower_happy_and_energetic:
  "ToLower mapLower ''I feel happy and energetic'' = ''i feel happy and energetic''"
proof -
  have a: "isASCII ''I feel happy and energetic''" by code_simp
  have l: "map lower_byte ''I feel happy and energetic'' = ''i feel happy and energetic''"
    by code_simp
  show ?thesis unfolding ToLower_ascii [OF a] by (rule l)
qed

lemma AnalyzeMood_example: "AnalyzeMood mapLower ''I feel Happy'' = spec_happy"
  unfolding AnalyzeMood_apply_rules ToLower_happy
  by (simp add: spec_apply_rules_def spec_rule_table_def spec_matches_def
      spec_happy_keywords_def spec_focused_keywords_def)

lemma search_query_example: "search_query env ''I feel Happy'' = ''happy upbeat energetic''"
  by (simp add: search_query_def AnalyzeMood_example spec_happy_def)

text \<open>
  Claim C1. Whatever the description, also when its lowercased text matches the
  keywords of several categories, the profile returned by \<open>AnalyzeMood\<close> is the
  result of applying the six rules in table order (happy, sad, relaxed,
  energetic, romantic, focused) to the text that \<open>strings.ToLower\<close> returns, each
  matching rule replacing the whole profile; that is the profile of the last
  matching rule. In particular a text with a "happy" keyword and a "focused"
  keyword gets the complete "focused" profile. This holds for every Unicode path
  of the lowering, Go's among them.
\<close>

theorem AnalyzeMood_last_match_wins:
  "AnalyzeMood mapLower s = spec_apply_rules (ToLower mapLower s) \<and>
   AnalyzeMood mapLower s = spec_last_match (ToLower mapLower s) \<and>
   (spec_matches (ToLower mapLower s) (spec_happy_keywords, spec_happy) \<and>
    spec_matches (ToLower mapLower s) (spec_focused_keywords, spec_focused)
      \<longrightarrow> AnalyzeMood mapLower s = spec_focused)"
  using AnalyzeMood_apply_rules [of mapLower s]
    spec_apply_rules_last_match [of "ToLower mapLower s"]
    apply_rules_focused [of "ToLower mapLower s"]
  by simp

text \<open>The description \<open>Happy but FOCUSED\<close> matches both rules and is classified as focused.\<close>

theorem AnalyzeMood_last_match_wins_witness:
  "spec_matches (ToLower stub_lower ''Happy but FOCUSED'') (spec_happy_keywords, spec_happy) \<and>
   spec_matches (ToLower stub_lower ''Happy but FOCUSED'')
     (spec_focused_keywords, spec_focused) \<and>
   AnalyzeMood stub_lower ''Happy but FOCUSED'' = spec_focused"
proof -
  have l: "ToLower stub_lower ''Happy but FOCUSED'' = ''happy but focused''" by code_simp
  have h1: "spec_matches (ToLower stub_lower ''Happy but FOCUSED'')
              (spec_happy_keywords, spec_happy)"
    by (simp add: l spec_matches_def spec_happy_keywords_def)
  have h2: "spec_matches (ToLower stub_lower ''Happy but FOCUSED'')
              (spec_focused_keywords, spec_focused)"
    by (simp add: l spec_matches_def spec_focused_keywords_def)
  from AnalyzeMood_last_match_wins [of stub_lower "''Happy but FOCUSED''"] h1 h2
  show ?thesis by blast
qed

text \<open>
  Claim C2, as amended. For the input \<open>I feel happy and energetic\<close> the classifier
  returns the mood "energetic" with energy 0.9: the text matches the happy rule
  and then the energetic rule (the keyword "energetic" is in both lists), and the
  later rule replaces the profile of the earlier one. The input is ASCII, so that
  the Unicode path of the lowering plays no part.
\<close>

theorem happy_and_energetic_is_energetic:
  "Mood (AnalyzeMood mapLower ''I feel happy and energetic'') = ''energetic'' \<and>
   Energy (AnalyzeMood mapLower ''I feel happy and energetic'') = 0.9"
  by (simp add: AnalyzeMood_def ToLower_happy_and_energetic Let_def)

text \<open>The same input does not get the mood "happy" with energy 0.8.\<close>

theorem happy_and_energetic_not_happy:
  "\<not> (Mood (AnalyzeMood stub_lower ''I feel happy and energetic'') = ''happy'' \<and>
      Energy (AnalyzeMood stub_lower ''I feel happy and energetic'') = 0.8)"
  by (simp add: AnalyzeMood_def ToLower_happy_and_energetic Let_def)

text \<open>
  Claim C3. When the text that \<open>strings.ToLower\<close> returns on the description
  contains none of the keywords of any of the six categories, \<open>AnalyzeMood\<close>
  returns the neutral profile: mood "neutral", the four features at 0.5, no genre
  and empty search terms.
\<close>

theorem AnalyzeMood_neutral_default:
  assumes "\<forall>rule \<in> set spec_rule_table. \<forall>keyword \<in> set (fst rule).
             \<not> Contains (ToLower mapLower s) keyword"
  shows "AnalyzeMood mapLower s =
           \<lparr>Mood = ''neutral'', Energy = 0.5, Danceability = 0.5, Valence = 0.5,
            Acousticness = 0.5, SuggestedGenres = [], SearchQueryTerms = ''''\<rparr>"
proof -
  from assms
  have "\<forall>rule \<in> set spec_rule_table. \<not> spec_matches (ToLower mapLower s) rule"
    by (simp add: spec_matches_def list_ex_iff)
  then have "spec_apply_rules (ToLower mapLower s) = spec_neutral"
    unfolding spec_apply_rules_def by (rule foldl_no_match)
  then show ?thesis by (simp add: AnalyzeMood_apply_rules spec_neutral_def)
qed

text \<open>The description \<open>Banana bread recipe\<close> has no keyword in it.\<close>

theorem AnalyzeMood_neutral_default_witness:
  "\<not> list_ex (spec_matches (ToLower stub_lower ''Banana bread recipe'')) spec_rule_table \<and>
   AnalyzeMood stub_lower ''Banana bread recipe'' =
     \<lparr>Mood = ''neutral'', Energy = 0.5, Danceability = 0.5, Valence = 0.5,
      Acousticness = 0.5, SuggestedGenres = [], SearchQueryTerms = ''''\<rparr>"
proof -
  have l: "ToLower stub_lower ''Banana bread recipe'' = ''banana bread recipe''"
    by code_simp
  have h: "\<forall>rule \<in> set spec_rule_table. \<forall>keyword \<in> set (fst rule).
             \<not> Contains (ToLower stub_lower ''Banana bread recipe'') keyword"
    by (simp add: l spec_rule_table_def spec_happy_keywords_def spec_focused_keywords_def)
  have n: "\<not> list_ex (spec_matches (ToLower stub_lower ''Banana bread recipe''))
               spec_rule_table"
    using h by (simp add: list_ex_iff spec_matches_def)
  show ?thesis using n AnalyzeMood_neutral_default [OF h] by simp
qed




section \<open>Facts about the client\<close>

lemma SearchTracks_calls:
  "calls (snd (SearchTracks env c q l w)) = calls w @ [CallSearchTracks q l]"
  by (simp add: SearchTracks_def enter_def client_Do_def Let_def split: option.split)

lemma GetRecommendations_calls:
  "calls (snd (GetRecommendations env c st sg mp l w)) =
     calls w @ [CallGetRecommendations st sg mp l]"
  by (simp add: GetRecommendations_def enter_def client_Do_def Let_def split: option.split)

lemma GetCurrentUser_calls:
  "calls (snd (GetCurrentUser env c w)) = calls w @ [CallGetCurrentUser]"
  by (simp add: GetCurrentUser_def enter_def client_Do_def Let_def split: option.split)

lemma CreatePlaylist_calls:
  "calls (snd (CreatePlaylist env c u n d w)) = calls w @ [CallCreatePlaylist u n d]"
  by (simp add: CreatePlaylist_def enter_def client_Do_def Let_def split: option.split)

lemma AddTracksToPlaylist_calls:
  "calls (snd (AddTracksToPlaylist env c p us w)) = calls w @ [CallAddTracksToPlaylist p us]"
  by (simp add: AddTracksToPlaylist_def enter_def client_Do_def Let_def split: option.split)

text \<open>The operations on the scripted network.\<close>

lemmas stub_defs = stub_env_def stub_net_def stub_client_def start_def stub_user_def
  stub_playlist_def enter_def client_Do_def

lemma stub_SearchTracks:
  "length (sent w) \<noteq> k \<Longrightarrow>
     fst (SearchTracks (stub_env k st found) stub_client q l w) = Inr found \<and>
     length (sent (snd (SearchTracks (stub_env k st found) stub_client q l w))) =
       Suc (length (sent w))"
  by (simp add: SearchTracks_def Let_def stub_defs)

lemma stub_GetCurrentUser:
  "length (sent w) \<noteq> k \<Longrightarrow>
     fst (GetCurrentUser (stub_env k st found) stub_client w) = Inr stub_user \<and>
     length (sent (snd (GetCurrentUser (stub_env k st found) stub_client w))) =
       Suc (length (sent w))"
  by (simp add: GetCurrentUser_def Let_def stub_env_def stub_net_def stub_client_def
      enter_def client_Do_def)

lemma stub_CreatePlaylist:
  "fst (CreatePlaylist (stub_env k st found) stub_client u n d w) =
     (if length (sent w) = k \<and> st \<noteq> 201 \<and> st \<noteq> 200 then Inl (StatusError st ''answer'')
      else Inr stub_playlist) \<and>
   length (sent (snd (CreatePlaylist (stub_env k st found) stub_client u n d w))) =
     Suc (length (sent w))"
  by (simp add: CreatePlaylist_def Let_def stub_env_def stub_net_def stub_client_def
      enter_def client_Do_def)

lemma stub_AddTracksToPlaylist:
  "length (sent w) \<noteq> k \<Longrightarrow>
     fst (AddTracksToPlaylist (stub_env k st found) stub_client pid uris w) = None"
  by (simp add: AddTracksToPlaylist_def Let_def stub_env_def stub_net_def stub_client_def
      enter_def client_Do_def)

text \<open>
  Claim C5. Each of the five operations other than \<open>Authenticate\<close>, called on a
  client whose access token is empty, returns the "not authenticated" error and
  hands no request to the network: the list of requests sent is unchanged.
\<close>

theorem unauthenticated_no_request:
  assumes "accessToken c = ''''"
  shows "fst (SearchTracks env c query limit w) = Inl NotAuthenticated \<and>
         sent (snd (SearchTracks env c query limit w)) = sent w \<and>
         fst (GetRecommendations env c seedTracks seedGenres moodParams limit w) =
           Inl NotAuthenticated \<and>
         sent (snd (GetRecommendations env c seedTracks seedGenres moodParams limit w)) =
           sent w \<and>
         fst (GetCurrentUser env c w) = Inl NotAuthenticated \<and>
         sent (snd (GetCurrentUser env c w)) = sent w \<and>
         fst (CreatePlaylist env c userID name description w) = Inl NotAuthenticated \<and>
         sent (snd (CreatePlaylist env c userID name description w)) = sent w \<and>
         fst (AddTracksToPlaylist env c playlistID trackURIs w) = Some NotAuthenticated \<and>
         sent (snd (AddTracksToPlaylist env c playlistID trackURIs w)) = sent w"
  using assms
  by (simp add: SearchTracks_def GetRecommendations_def GetCurrentUser_def CreatePlaylist_def
      AddTracksToPlaylist_def enter_def Let_def)

text \<open>A client fresh from \<open>NewClient\<close> has no token yet.\<close>

theorem unauthenticated_no_request_witness:
  "accessToken (NewClient ''id'' ''secret'') = '''' \<and>
   fst (SearchTracks (stub_env 0 200 []) (NewClient ''id'' ''secret'') ''happy'' 5 start) =
     Inl NotAuthenticated \<and>
   sent (snd (SearchTracks (stub_env 0 200 []) (NewClient ''id'' ''secret'') ''happy'' 5 start)) =
     [] \<and>
   fst (AddTracksToPlaylist (stub_env 0 200 []) (NewClient ''id'' ''secret'') ''p1''
          [''spotify:track:a''] start) = Some NotAuthenticated \<and>
   sent (snd (AddTracksToPlaylist (stub_env 0 200 []) (NewClient ''id'' ''secret'') ''p1''
          [''spotify:track:a''] start)) = []"
proof -
  have h: "accessToken (NewClient ''id'' ''secret'') = ''''" by (simp add: NewClient_def)
  show ?thesis
    using h unauthenticated_no_request [OF h, of "stub_env 0 200 []" "''happy''" 5 start
        "[]" "[]" Map.empty "''u1''" "''Mix''" "''Songs''" "''p1''" "[''spotify:track:a'']"]
    by (simp add: start_def)
qed

text \<open>
  Claim C8, as amended. \<open>CreatePlaylist\<close>, called with a token, a body that can be
  marshalled and a request that can be built, and answered by the network with a
  status and a body, fails on the status exactly when the status is neither 201
  nor 200; with one of these two it returns the decoded playlist, or the decoding
  error when the body does not decode.
\<close>

theorem CreatePlaylist_status_200_or_201:
  assumes "accessToken c \<noteq> ''''"
    and "Marshal_strings env (CreatePlaylist_data name description) = Some jsonData"
    and "NewRequest_ok env ''POST'' (CreatePlaylist_url userID)"
    and "Do env (sent w) (CreatePlaylist_request c userID jsonData) =
           Some (Response status body)"
  shows "fst (CreatePlaylist env c userID name description w) =
           (if status = 201 \<or> status = 200
            then (case Decode_Playlist env body of
                    None \<Rightarrow> Inl DecodeError
                  | Some playlist \<Rightarrow> Inr playlist)
            else Inl (StatusError status body))"
  using assms
  by (simp add: CreatePlaylist_def enter_def client_Do_def Let_def split: option.split)

text \<open>An answer with status 201 and a body that decodes.\<close>

theorem CreatePlaylist_status_200_or_201_witness:
  "accessToken stub_client \<noteq> '''' \<and>
   Marshal_strings (stub_env 0 201 []) (CreatePlaylist_data ''Mix'' ''Songs'') = Some ''{}'' \<and>
   NewRequest_ok (stub_env 0 201 []) ''POST'' (CreatePlaylist_url ''u1'') \<and>
   Do (stub_env 0 201 []) (sent start) (CreatePlaylist_request stub_client ''u1'' ''{}'') =
     Some (Response 201 ''answer'') \<and>
   fst (CreatePlaylist (stub_env 0 201 []) stub_client ''u1'' ''Mix'' ''Songs'' start) =
     Inr stub_playlist"
proof -
  have a: "accessToken stub_client \<noteq> ''''" by (simp add: stub_client_def)
  have b: "Marshal_strings (stub_env 0 201 []) (CreatePlaylist_data ''Mix'' ''Songs'') =
             Some ''{}''"
    by (simp add: stub_env_def)
  have c: "NewRequest_ok (stub_env 0 201 []) ''POST'' (CreatePlaylist_url ''u1'')"
    by (simp add: stub_env_def)
  have d: "Do (stub_env 0 201 []) (sent start)
             (CreatePlaylist_request stub_client ''u1'' ''{}'') =
           Some (Response 201 ''answer'')"
    by (simp add: stub_env_def stub_net_def start_def)
  have e: "Decode_Playlist (stub_env 0 201 []) ''answer'' = Some stub_playlist"
    by (simp add: stub_env_def)
  show ?thesis
    using a b c d CreatePlaylist_status_200_or_201 [OF a b c d] by (simp add: e)
qed

text \<open>
  An answer with status 204, which is a 2xx status, and a body that decodes: the
  operation fails with the status error.
\<close>

theorem CreatePlaylist_status_204_fails:
  "accessToken stub_client \<noteq> '''' \<and>
   Do (stub_env 0 204 []) (sent start) (CreatePlaylist_request stub_client ''u1'' ''{}'') =
     Some (Response 204 ''answer'') \<and>
   (200::int) \<le> 204 \<and> (204::int) < 300 \<and>
   Decode_Playlist (stub_env 0 204 []) ''answer'' = Some stub_playlist \<and>
   fst (CreatePlaylist (stub_env 0 204 []) stub_client ''u1'' ''Mix'' ''Songs'' start) =
     Inl (StatusError 204 ''answer'')"
  by (simp add: CreatePlaylist_def Let_def stub_defs)

section \<open>Facts about the agent\<close>

lemma more_tracks_calls:
  "\<exists>rest. calls (snd (more_tracks env c p q ts w)) =
     calls w @ CallGetRecommendations (collect_seedTrackIDs ts [])
                 (fill_seedGenres p (collect_seedTrackIDs ts [])) (moodParams_of p) 15 # rest"
proof -
  let ?ids = "collect_seedTrackIDs ts []"
  obtain r w1 where g:
    "GetRecommendations env c ?ids (fill_seedGenres p ?ids) (moodParams_of p) 15 w = (r, w1)"
    by (cases "GetRecommendations env c ?ids (fill_seedGenres p ?ids) (moodParams_of p) 15 w")
  have c1: "calls w1 =
      calls w @ [CallGetRecommendations ?ids (fill_seedGenres p ?ids) (moodParams_of p) 15]"
    using GetRecommendations_calls
      [of env c ?ids "fill_seedGenres p ?ids" "moodParams_of p" 15 w] g
    by simp
  show ?thesis
  proof (cases r)
    case (Inr recs)
    with g c1 show ?thesis by (simp add: more_tracks_def Let_def)
  next
    case (Inl e)
    obtain r2 w2 where s: "SearchTracks env c (q @ '' '' @ Mood p) 15 w1 = (r2, w2)"
      by (cases "SearchTracks env c (q @ '' '' @ Mood p) 15 w1")
    have c2: "calls w2 = calls w1 @ [CallSearchTracks (q @ '' '' @ Mood p) 15]"
      using SearchTracks_calls [of env c "q @ '' '' @ Mood p" 15 w1] s by simp
    from Inl g s c1 c2 show ?thesis
      by (cases r2) (simp_all add: more_tracks_def Let_def)
  qed
qed

lemma try_playlist_calls:
  "\<exists>rest. calls (snd (try_playlist env c p response uris w)) = calls w @ rest"
proof -
  obtain r1 w1 where a: "GetCurrentUser env c w = (r1, w1)"
    by (cases "GetCurrentUser env c w")
  have c1: "calls w1 = calls w @ [CallGetCurrentUser]"
    using GetCurrentUser_calls [of env c w] a by simp
  show ?thesis
  proof (cases r1)
    case (Inl e)
    with a c1 show ?thesis by (simp add: try_playlist_def)
  next
    case (Inr user)
    obtain r2 w2 where b:
      "CreatePlaylist env c (User_ID user) (playlistName p) (playlistDescription p) w1 =
         (r2, w2)"
      by (cases "CreatePlaylist env c (User_ID user) (playlistName p)
                   (playlistDescription p) w1")
    have c2: "calls w2 = calls w1 @
        [CallCreatePlaylist (User_ID user) (playlistName p) (playlistDescription p)]"
      using CreatePlaylist_calls
        [of env c "User_ID user" "playlistName p" "playlistDescription p" w1] b
      by simp
    show ?thesis
    proof (cases r2)
      case (Inl e)
      with Inr a b c1 c2 show ?thesis by (simp add: try_playlist_def)
    next
      case (Inr playlist)
      obtain r3 w3 where d:
        "AddTracksToPlaylist env c (Playlist_ID playlist) uris w2 = (r3, w3)"
        by (cases "AddTracksToPlaylist env c (Playlist_ID playlist) uris w2")
      have c3: "calls w3 = calls w2 @ [CallAddTracksToPlaylist (Playlist_ID playlist) uris]"
        using AddTracksToPlaylist_calls [of env c "Playlist_ID playlist" uris w2] d by simp
      from Inr \<open>r1 = Inr user\<close> a b d c1 c2 c3 show ?thesis
        by (cases r3) (simp_all add: try_playlist_def)
    qed
  qed
qed

lemma recommendMusic_found:
  assumes "SearchTracks env c (search_query env d) 5 w = (Inr tracks, w1)"
    and "tracks \<noteq> []"
    and "more_tracks env c (AnalyzeMood (Map_ToLower env) d) (search_query env d) tracks w1 = (tracks', w2)"
    and "build_response (AnalyzeMood (Map_ToLower env) d) tracks' = (response, uris)"
  shows "recommendMusic env c d w = try_playlist env c (AnalyzeMood (Map_ToLower env) d) response uris w2"
  using assms by (simp add: recommendMusic_def Let_def)

lemma collect_seedTrackIDs_filter:
  "collect_seedTrackIDs ts acc = acc @ filter (\<lambda>i. i \<noteq> '''') (map Track_ID ts)"
  by (induction ts arbitrary: acc) simp_all

lemma fill_seedGenres_take:
  "fill_seedGenres p ids =
     (if length ids < 5
      then take (min (5 - length ids) (length (SuggestedGenres p))) (SuggestedGenres p)
      else [])"
  by (auto simp add: fill_seedGenres_def Let_def min_def nat_diff_distrib')

lemma HasPrefix_append: "HasPrefix (p @ s) p"
  by (induction p) simp_all

lemma Contains_HasPrefix: "HasPrefix s sub \<Longrightarrow> Contains s sub"
  by (cases s; cases sub) simp_all

lemma Contains_append_left: "Contains s sub \<Longrightarrow> Contains (a @ s) sub"
  by (induction a) simp_all

lemma Contains_middle: "Contains (a @ b @ c) b"
  by (rule Contains_append_left, rule Contains_HasPrefix, rule HasPrefix_append)

lemma stub_more_tracks:
  "length (sent w) \<noteq> k \<Longrightarrow>
     fst (more_tracks (stub_env k st found) stub_client p q ts w) =
       ts @ [stub_track ''r1'' []] \<and>
     length (sent (snd (more_tracks (stub_env k st found) stub_client p q ts w))) =
       Suc (length (sent w))"
  by (simp add: more_tracks_def GetRecommendations_def Let_def stub_defs)

lemma list_tracks_lines:
  "fst (list_tracks i tracks response trackURIs) =
     response @
     concat (map (\<lambda>(n, t). track_line n t) (zip [Suc i..<Suc i + length tracks] tracks))"
proof (induction tracks arbitrary: i response trackURIs)
  case Nil
  then show ?case by simp
next
  case (Cons t ts)
  have u: "[Suc i..<Suc i + length (t # ts)] =
             Suc i # [Suc (Suc i)..<Suc (Suc i) + length ts]"
    by (subst upt_rec) simp
  have l: "Sprint_d (int i + 1) @ ''. '' @
             FormatTrackRecommendation (Track_Name t)
               (case Track_Artists t of [] \<Rightarrow> ''Unknown''
                | first # others \<Rightarrow> Artist_Name first)
               (Track_ExternalURLs_Spotify t) @ [CHR 0x0A] =
           track_line (Suc i) t"
    by (simp add: track_line_def shown_artist_def FormatTrackRecommendation_def add.commute
        split: list.split)
  show ?case
    unfolding u using Cons.IH [of "Suc i"] l
    by (simp add: Let_def del: upt_Suc)
qed

lemma Sprint_d_examples: "Sprint_d 1 = ''1''" "Sprint_d 2 = ''2''"
  by code_simp+

text \<open>
  Claim C6. When the first search succeeds and finds no track, \<open>recommendMusic\<close>
  returns the "no matching songs" message, which contains the mood label, with a
  nil error, and the search is the only call of a client operation it makes: no
  recommendation, user lookup, playlist creation or track addition.
\<close>

theorem no_tracks_found_message:
  assumes "SearchTracks env c (search_query env d) 5 w = (Inr [], w1)"
  shows "fst (recommendMusic env c d w) =
           (''I understand you're feeling '' @ Mood (AnalyzeMood (Map_ToLower env) d)
              @ '', but I couldn't find any matching songs right now.'', None) \<and>
         Contains (fst (fst (recommendMusic env c d w))) (Mood (AnalyzeMood (Map_ToLower env) d)) \<and>
         calls (snd (recommendMusic env c d w)) =
           calls w @ [CallSearchTracks (search_query env d) 5]"
proof -
  have r: "recommendMusic env c d w =
      ((''I understand you're feeling '' @ Mood (AnalyzeMood (Map_ToLower env) d)
          @ '', but I couldn't find any matching songs right now.'', None), w1)"
    using assms by (simp add: recommendMusic_def Let_def)
  have c: "calls w1 = calls w @ [CallSearchTracks (search_query env d) 5]"
    using SearchTracks_calls [of env c "search_query env d" 5 w] assms by simp
  have k: "Contains (''I understand you're feeling '' @ Mood (AnalyzeMood (Map_ToLower env) d)
              @ '', but I couldn't find any matching songs right now.'')
             (Mood (AnalyzeMood (Map_ToLower env) d))"
    by (rule Contains_middle)
  show ?thesis unfolding r fst_conv snd_conv using c k by blast
qed

text \<open>A search that finds nothing, for a happy description.\<close>

theorem no_tracks_found_message_witness:
  "fst (SearchTracks (stub_env 9 200 []) stub_client (search_query (stub_env 9 200 []) ''I feel Happy'') 5 start) =
     Inr [] \<and>
   fst (recommendMusic (stub_env 9 200 []) stub_client ''I feel Happy'' start) =
     (''I understand you're feeling happy, but I couldn't find any matching songs right now.'',
      None) \<and>
   calls (snd (recommendMusic (stub_env 9 200 []) stub_client ''I feel Happy'' start)) =
     [CallSearchTracks ''happy upbeat energetic'' 5]"
proof -
  let ?E = "stub_env 9 200 []" and ?D = "''I feel Happy''"
  have f: "fst (SearchTracks ?E stub_client (search_query ?E ?D) 5 start) = Inr []"
    by (simp add: SearchTracks_def Let_def stub_defs)
  have h: "SearchTracks ?E stub_client (search_query ?E ?D) 5 start =
             (Inr [], snd (SearchTracks ?E stub_client (search_query ?E ?D) 5 start))"
    by (rule prod_eqI) (simp_all add: f)
  show ?thesis
    using f no_tracks_found_message [OF h]
    by (simp add: AnalyzeMood_example search_query_example spec_happy_def start_def)
qed

text \<open>
  Claim C4. When the first search finds tracks, the second call of the client is
  \<open>GetRecommendations\<close> with the non-empty track identifiers as seed tracks and
  with these seed genres: when there are fewer than 5 seed tracks, the first
  min(5 - number of seed tracks, number of suggested genres) genres of the
  profile, in order; when there are 5 or more, none.
\<close>

theorem seed_genres_fill_up:
  assumes "SearchTracks env c (search_query env d) 5 w = (Inr tracks, w1)" and "tracks \<noteq> []"
  shows "(let seedTrackIDs = filter (\<lambda>i. i \<noteq> '''') (map Track_ID tracks);
              genres = SuggestedGenres (AnalyzeMood (Map_ToLower env) d);
              seedGenres = (if length seedTrackIDs < 5
                            then take (min (5 - length seedTrackIDs) (length genres)) genres
                            else [])
          in take (length (calls w) + 2) (calls (snd (recommendMusic env c d w))) =
               calls w @ [CallSearchTracks (search_query env d) 5,
                          CallGetRecommendations seedTrackIDs seedGenres
                            (moodParams_of (AnalyzeMood (Map_ToLower env) d)) 15] \<and>
             length seedGenres =
               (if length seedTrackIDs < 5
                then min (5 - length seedTrackIDs) (length genres)
                else 0))"
proof -
  let ?p = "AnalyzeMood (Map_ToLower env) d"
  obtain tracks' w2 where m:
    "more_tracks env c ?p (search_query env d) tracks w1 = (tracks', w2)"
    by (cases "more_tracks env c ?p (search_query env d) tracks w1")
  obtain response uris where b: "build_response ?p tracks' = (response, uris)"
    by (cases "build_response ?p tracks'")
  have r: "recommendMusic env c d w = try_playlist env c ?p response uris w2"
    using assms m b by (rule recommendMusic_found)
  have c1: "calls w1 = calls w @ [CallSearchTracks (search_query env d) 5]"
    using SearchTracks_calls [of env c "search_query env d" 5 w] assms(1) by simp
  obtain rest1 where c2: "calls w2 = calls w1 @
      CallGetRecommendations (collect_seedTrackIDs tracks [])
        (fill_seedGenres ?p (collect_seedTrackIDs tracks [])) (moodParams_of ?p) 15 # rest1"
    using more_tracks_calls [of env c ?p "search_query env d" tracks w1] m by auto
  obtain rest2 where c3:
    "calls (snd (try_playlist env c ?p response uris w2)) = calls w2 @ rest2"
    using try_playlist_calls [of env c ?p response uris w2] by auto
  have ids: "collect_seedTrackIDs tracks [] = filter (\<lambda>i. i \<noteq> '''') (map Track_ID tracks)"
    by (simp add: collect_seedTrackIDs_filter)
  show ?thesis
    unfolding r c3 c2 c1 ids fill_seedGenres_take Let_def by simp
qed

text \<open>
  Four tracks found, three of them with an identifier: two of the four genres of
  the happy profile fill up the seeds.
\<close>

theorem seed_genres_fill_up_witness:
  "fst (SearchTracks (stub_env 9 200 stub_found) stub_client
          (search_query (stub_env 9 200 stub_found) ''I feel Happy'') 5 start) = Inr stub_found \<and>
   stub_found \<noteq> [] \<and>
   take 2 (calls (snd (recommendMusic (stub_env 9 200 stub_found) stub_client ''I feel Happy''
                         start))) =
     [CallSearchTracks ''happy upbeat energetic'' 5,
      CallGetRecommendations [''a'', ''b'', ''c''] [''pop'', ''dance'']
        (moodParams_of spec_happy) 15]"
proof -
  let ?E = "stub_env 9 200 stub_found" and ?D = "''I feel Happy''"
  have f: "fst (SearchTracks ?E stub_client (search_query ?E ?D) 5 start) = Inr stub_found"
    by (simp add: SearchTracks_def Let_def stub_defs)
  have h: "SearchTracks ?E stub_client (search_query ?E ?D) 5 start =
             (Inr stub_found, snd (SearchTracks ?E stub_client (search_query ?E ?D) 5 start))"
    by (rule prod_eqI) (simp_all add: f)
  have n: "stub_found \<noteq> []" by (simp add: stub_found_def)
  have i: "filter (\<lambda>i. i \<noteq> '''') (map Track_ID stub_found) = [''a'', ''b'', ''c'']"
    by (simp add: stub_found_def stub_track_def)
  show ?thesis
    using f n seed_genres_fill_up [OF h n]
    by (simp add: Let_def i AnalyzeMood_example search_query_example spec_happy_def start_def
        numeral_2_eq_2)
qed

text \<open>
  Claim C7. Once the response has been built, whatever the playlist part does,
  \<open>recommendMusic\<close> returns a nil error; the text it returns is exactly the
  response built before when \<open>GetCurrentUser\<close> fails, when \<open>CreatePlaylist\<close>
  fails or when \<open>AddTracksToPlaylist\<close> fails, and it is the response followed by
  the playlist note only when the three of them succeed.
\<close>

theorem playlist_failures_swallowed:
  assumes "SearchTracks env c (search_query env d) 5 w = (Inr tracks, w1)" and "tracks \<noteq> []"
    and "more_tracks env c (AnalyzeMood (Map_ToLower env) d) (search_query env d) tracks w1 = (tracks', w2)"
    and "build_response (AnalyzeMood (Map_ToLower env) d) tracks' = (response, trackURIs)"
  shows "snd (fst (recommendMusic env c d w)) = None \<and>
    (let text = fst (fst (recommendMusic env c d w));
         r1 = GetCurrentUser env c w2
     in (isl (fst r1) \<longrightarrow> text = response) \<and>
        (fst r1 = Inr user \<longrightarrow>
          (let r2 = CreatePlaylist env c (User_ID user) (playlistName (AnalyzeMood (Map_ToLower env) d))
                      (playlistDescription (AnalyzeMood (Map_ToLower env) d)) (snd r1)
           in (isl (fst r2) \<longrightarrow> text = response) \<and>
              (fst r2 = Inr playlist \<longrightarrow>
                (let r3 = AddTracksToPlaylist env c (Playlist_ID playlist) trackURIs (snd r2)
                 in (fst r3 \<noteq> None \<longrightarrow> text = response) \<and>
                    (fst r3 = None \<longrightarrow>
                       text = response @ playlist_note playlist \<and> text \<noteq> response))))))"
proof -
  have r: "recommendMusic env c d w = try_playlist env c (AnalyzeMood (Map_ToLower env) d) response trackURIs w2"
    using assms by (rule recommendMusic_found)
  have n: "playlist_note playlist \<noteq> []" by (simp add: playlist_note_def)
  show ?thesis
    unfolding r Let_def using n
    by (auto simp add: try_playlist_def split: prod.split sum.split option.split)
qed

text \<open>
  Two runs on one found track and one recommended track. In the first the
  network refuses the fourth request, the creation of the playlist, with status
  403, and the text is the response alone; in the second every request is
  answered with status 200 and the note follows the response.
\<close>

theorem playlist_failures_swallowed_witness:
  "fst (SearchTracks (stub_env 3 403 [stub_track ''a'' []]) stub_client
          (search_query (stub_env 3 403 [stub_track ''a'' []]) ''I feel Happy'') 5 start) =
     Inr [stub_track ''a'' []] \<and>
   isl (fst (CreatePlaylist (stub_env 3 403 [stub_track ''a'' []]) stub_client
          (User_ID stub_user) (playlistName spec_happy) (playlistDescription spec_happy)
          (snd (GetCurrentUser (stub_env 3 403 [stub_track ''a'' []]) stub_client
             (snd (more_tracks (stub_env 3 403 [stub_track ''a'' []]) stub_client
                spec_happy ''happy upbeat energetic'' [stub_track ''a'' []]
                (snd (SearchTracks (stub_env 3 403 [stub_track ''a'' []]) stub_client
                   ''happy upbeat energetic'' 5 start)))))))) \<and>
   fst (recommendMusic (stub_env 3 403 [stub_track ''a'' []]) stub_client ''I feel Happy''
          start) =
     (fst (build_response spec_happy [stub_track ''a'' [], stub_track ''r1'' []]), None) \<and>
   fst (recommendMusic (stub_env 9 200 [stub_track ''a'' []]) stub_client ''I feel Happy''
          start) =
     (fst (build_response spec_happy [stub_track ''a'' [], stub_track ''r1'' []])
        @ playlist_note stub_playlist,
      None)"
proof -
  let ?T = "[stub_track ''a'' []]" and ?D = "''I feel Happy''"
  let ?P = "spec_happy" and ?Q = "''happy upbeat energetic''"
  let ?T' = "[stub_track ''a'' [], stub_track ''r1'' []]"
  have ne: "?T \<noteq> []" by simp
  have s0: "length (sent start) = 0" by (simp add: start_def)
  {
    fix k :: nat and st :: int
    assume k: "3 \<le> k"
    let ?E = "stub_env k st ?T"
    let ?W1 = "snd (SearchTracks ?E stub_client ?Q 5 start)"
    let ?W2 = "snd (more_tracks ?E stub_client ?P ?Q ?T ?W1)"
    let ?W3 = "snd (GetCurrentUser ?E stub_client ?W2)"
    from k s0 have a1: "length (sent start) \<noteq> k" by simp
    note f1 = stub_SearchTracks [OF a1, of st ?T ?Q 5]
    from k f1 have a2: "length (sent ?W1) \<noteq> k" by (simp add: s0)
    note f2 = stub_more_tracks [OF a2, of st ?T ?P ?Q ?T]
    from k f1 f2 have a3: "length (sent ?W2) \<noteq> k" by (simp add: s0)
    note f3 = stub_GetCurrentUser [OF a3, of st ?T]
    from f1 f2 f3 have l3: "length (sent ?W3) = 3" by (simp add: s0)
    note f4 = stub_CreatePlaylist [of k st ?T "User_ID stub_user" "playlistName ?P"
        "playlistDescription ?P" ?W3]
    have S: "SearchTracks ?E stub_client (search_query ?E ?D) 5 start = (Inr ?T, ?W1)"
      unfolding search_query_example by (rule prod_eqI) (simp_all add: f1)
    have M: "more_tracks ?E stub_client (AnalyzeMood (Map_ToLower ?E) ?D)
               (search_query ?E ?D) ?T ?W1 = (?T', ?W2)"
      unfolding search_query_example AnalyzeMood_example
      by (rule prod_eqI) (simp_all add: f2)
    have B: "build_response (AnalyzeMood (Map_ToLower ?E) ?D) ?T' =
               (fst (build_response ?P ?T'), snd (build_response ?P ?T'))"
      unfolding AnalyzeMood_example by simp
    note playlist_failures_swallowed [OF S ne M B, of stub_user stub_playlist,
        unfolded AnalyzeMood_example search_query_example]
    note this f1 f3 f4 l3
  }
  note run = this
  have r1: "3 \<le> (3::nat)" by simp
  have r2: "3 \<le> (9::nat)" by simp
  have l4: "length (sent (snd (CreatePlaylist (stub_env 9 200 ?T) stub_client
       (User_ID stub_user) (playlistName ?P) (playlistDescription ?P)
       (snd (GetCurrentUser (stub_env 9 200 ?T) stub_client
         (snd (more_tracks (stub_env 9 200 ?T) stub_client ?P ?Q ?T
           (snd (SearchTracks (stub_env 9 200 ?T) stub_client ?Q 5 start))))))))) \<noteq> 9"
    using run(5) [OF r2, of 200] stub_CreatePlaylist by simp
  have A: "fst (AddTracksToPlaylist (stub_env 9 200 ?T) stub_client
       (Playlist_ID stub_playlist) (snd (build_response ?P ?T'))
       (snd (CreatePlaylist (stub_env 9 200 ?T) stub_client (User_ID stub_user)
       (playlistName ?P) (playlistDescription ?P)
       (snd (GetCurrentUser (stub_env 9 200 ?T) stub_client
         (snd (more_tracks (stub_env 9 200 ?T) stub_client ?P ?Q ?T
           (snd (SearchTracks (stub_env 9 200 ?T) stub_client ?Q 5 start))))))))) = None"
    using l4 by (rule stub_AddTracksToPlaylist)
  show ?thesis
    using run(1) [OF r1, of 403] run(2) [OF r1, of 403] run(3) [OF r1, of 403]
      run(4) [OF r1, of 403] run(5) [OF r1, of 403]
      run(1) [OF r2, of 200] run(3) [OF r2, of 200] run(4) [OF r2, of 200] A
    by (simp add: Let_def prod_eq_iff search_query_example)
qed

text \<open>
  Claim C10. The response built for a list of tracks is the header followed by
  one line per track, in order and numbered from 1, none left out; each line
  reads, byte for byte, as \<open>track_line\<close> spells it: the title, then \<open>by\<close>, then
  the name of the first artist of the track and of no other, or \<open>Unknown\<close> when
  the track has no artist.
\<close>

theorem response_lists_every_track:
  "fst (build_response p tracks) =
     response_header p @
     concat (map (\<lambda>(n, t). track_line n t) (zip [1..<Suc (length tracks)] tracks))"
  using list_tracks_lines [of 0 tracks "response_header p" "[]"]
  by (simp add: build_response_def)

text \<open>
  A track without artist and a track with two artists, in the response to a happy
  mood: the whole text.
\<close>

theorem response_lists_every_track_witness:
  "fst (build_response spec_happy
          [stub_track ''a'' [],
           stub_track ''b'' [\<lparr>Artist_Name = ''Ann''\<rparr>, \<lparr>Artist_Name = ''Bob''\<rparr>]]) =
     ''Based on your mood (happy), here are some song recommendations:''
       @ [CHR 0x0A, CHR 0x0A]
       @ ''1. '' @ [CHR 0xF0, CHR 0x9F, CHR 0x8E, CHR 0xB5] @ '' Song by Unknown''
       @ [CHR 0x0A] @ ''   '' @ [CHR 0xF0, CHR 0x9F, CHR 0x94, CHR 0x97]
       @ '' https://open.spotify.com/track/a'' @ [CHR 0x0A]
       @ ''2. '' @ [CHR 0xF0, CHR 0x9F, CHR 0x8E, CHR 0xB5] @ '' Song by Ann''
       @ [CHR 0x0A] @ ''   '' @ [CHR 0xF0, CHR 0x9F, CHR 0x94, CHR 0x97]
       @ '' https://open.spotify.com/track/b'' @ [CHR 0x0A]"
  using response_lists_every_track [of spec_happy
      "[stub_track ''a'' [],
        stub_track ''b'' [\<lparr>Artist_Name = ''Ann''\<rparr>, \<lparr>Artist_Name = ''Bob''\<rparr>]]"]
  by (simp add: track_line_def shown_artist_def stub_track_def Sprint_d_examples upt_rec
      response_header_def spec_happy_def)

end
